theory Spec2Isabelle
  imports Complex_Main "HOL-Library.Word" "HOL-Library.Signed_Division"
begin

unbundle bit_operations_syntax

section \<open>Data model of Quadkeys.go\<close>

text \<open>
  The Go types \<open>int\<close> and \<open>uint\<close> are machine integers; they are taken at 64 bits, their
  width on the 64-bit targets of the Go compiler. Both are \<open>64 word\<close>: \<open>sint\<close> reads an
  \<open>int\<close>, \<open>unat\<close> reads a \<open>uint\<close>, and \<open>+\<close>, \<open>-\<close>, \<open>*\<close> and the shifts wrap as Go's do.

  \<open>float64\<close> is idealised as \<open>real\<close>: the model covers the finite values (no NaN, no
  infinities, no negative zero) and its arithmetic is exact, where the machine rounds.

  A Go \<open>string\<close> is a sequence of bytes: \<open>string\<close>, a list of 8-bit \<open>char\<close>.
\<close>

type_synonym go_int = "64 word"
type_synonym go_uint = "64 word"
type_synonym float64 = real

text \<open>The run-time panic of an index expression out of range.\<close>

datatype go_panic = IndexOutOfRange


definition MinLatitude :: float64 where
  "MinLatitude = - 85.05112878"

definition MaxLatitude :: float64 where
  "MaxLatitude = - 1 * MinLatitude"

definition MinLongitude :: float64 where
  "MinLongitude = - 180"

definition MaxLongitude :: float64 where
  "MaxLongitude = - 1 * MinLongitude"

subsection \<open>Conversions between the numeric types\<close>

text \<open>\<open>float64(u)\<close> for \<open>u\<close> of type \<open>uint\<close>.\<close>

definition float64_of_uint :: "go_uint \<Rightarrow> float64" where
  "float64_of_uint u = real (unat u)"

text \<open>
  \<open>int(x)\<close> for \<open>x\<close> of type \<open>float64\<close>: the fraction is discarded (truncation towards
  zero). Go leaves the result to the implementation when the truncated value does not
  fit an \<open>int\<close>; the model wraps it.
\<close>

definition int_of_float64 :: "float64 \<Rightarrow> go_int" where
  "int_of_float64 x = word_of_int (if 0 \<le> x then \<lfloor>x\<rfloor> else \<lceil>x\<rceil>)"

text \<open>
  The quotient \<open>a / b\<close> of two \<open>int\<close>s truncates towards zero. The only divisor in the
  program is the constant 256, so the panic on a zero divisor is no branch of the model.
\<close>

definition int_quo :: "go_int \<Rightarrow> go_int \<Rightarrow> go_int" where
  "int_quo a b = word_of_int (sint a sdiv sint b)"

text \<open>
  \<open>strconv.Itoa\<close>: the decimal representation of an \<open>int\<close>, with a leading minus sign
  for a negative one.
\<close>

fun decimal :: "nat \<Rightarrow> string" where
  "decimal n =
     (if n < 10 then [''0123456789'' ! n]
      else decimal (n div 10) @ [''0123456789'' ! (n mod 10)])"

declare decimal.simps [simp del]

definition Itoa :: "go_int \<Rightarrow> string" where
  "Itoa i = (if sint i < 0 then CHR ''-'' # decimal (nat (- sint i)) else decimal (nat (sint i)))"

section \<open>The functions of Quadkeys.go\<close>

text \<open>\<open>math.Min(math.Max(n, minValue), maxValue)\<close>\<close>

definition clip :: "float64 \<Rightarrow> float64 \<Rightarrow> float64 \<Rightarrow> float64" where
  "clip n minValue maxValue = min (max n minValue) maxValue"

text \<open>
  \<open>256 << levelOfDetail\<close>, at type \<open>uint\<close>: bits shifted beyond bit 63 are lost, and a
  shift count of 64 or more gives 0.
\<close>

definition MapSize :: "go_uint \<Rightarrow> go_uint" where
  "MapSize levelOfDetail = push_bit (unat levelOfDetail) 256"


definition LatLongToPixelXY :: "float64 \<Rightarrow> float64 \<Rightarrow> go_uint \<Rightarrow> go_int \<times> go_int" where
  "LatLongToPixelXY latitude longitude levelOfDetail =
     (let latitude = clip latitude MinLatitude MaxLatitude;
          longitude = clip longitude MinLongitude MaxLongitude;
          x = (longitude + 180) / 360;
          sinLatitude = sin (latitude * pi / 180);
          y = 0.5 - ln ((1 + sinLatitude) / (1 - sinLatitude)) / (4 * pi);
          mapSize = MapSize levelOfDetail;
          pixelX = int_of_float64
            (clip (x * float64_of_uint mapSize + 0.5) 0 (float64_of_uint (mapSize - 1)));
          pixelY = int_of_float64
            (clip (y * float64_of_uint mapSize + 0.5) 0 (float64_of_uint (mapSize - 1)))
      in (pixelX, pixelY))"

definition PixelXYToTileXY :: "go_int \<Rightarrow> go_int \<Rightarrow> go_int \<times> go_int" where
  "PixelXYToTileXY pixelX pixelY = (int_quo pixelX 256, int_quo pixelY 256)"

definition TileXYToPixelXY :: "go_int \<Rightarrow> go_int \<Rightarrow> go_int \<times> go_int" where
  "TileXYToPixelXY tileX tileY = (tileX * 256, tileY * 256)"

text \<open>
  The loop \<open>for i := levelOfDetail; i > 0; i--\<close> of \<open>TileXYToQuadKey\<close>. The counter \<open>i\<close>
  is a \<open>uint\<close> that only counts down to 0, so the model recurses on its value: in the
  equation for \<open>Suc j\<close> the counter is \<open>i = j + 1\<close> and the shift count \<open>i - 1\<close> is \<open>j\<close>.
  The mask \<open>1 << (i - 1)\<close> is an \<open>int\<close>; it is 0 once the count reaches 64.
\<close>

fun TileXYToQuadKey_loop :: "nat \<Rightarrow> go_int \<Rightarrow> go_int \<Rightarrow> string \<Rightarrow> string" where
  "TileXYToQuadKey_loop 0 tileX tileY buffer = buffer"
| "TileXYToQuadKey_loop (Suc j) tileX tileY buffer =
     (let digit = (0 :: go_int);
          mask = push_bit j (1 :: go_int);
          digit = (if tileX AND mask \<noteq> 0 then digit + 1 else digit);
          digit = (if tileY AND mask \<noteq> 0 then digit + 1 + 1 else digit)
      in TileXYToQuadKey_loop j tileX tileY (buffer @ Itoa digit))"

definition TileXYToQuadKey :: "go_int \<Rightarrow> go_int \<Rightarrow> go_uint \<Rightarrow> string" where
  "TileXYToQuadKey tileX tileY levelOfDetail =
     TileXYToQuadKey_loop (unat levelOfDetail) tileX tileY []"

text \<open>
  The loop of \<open>QuadKeyToTileXY\<close>, with the same counter. The byte read is
  \<open>quadKey[levelOfDetail - i]\<close>, the index computed at type \<open>uint\<close>; an index beyond the
  string would panic. \<open>string(b)\<close> of a byte \<open>b\<close> is the UTF-8 encoding of the code point
  \<open>b\<close>, which is one of the strings "0" to "3" exactly when \<open>b\<close> is that ASCII digit.
\<close>

fun QuadKeyToTileXY_loop ::
  "nat \<Rightarrow> string \<Rightarrow> go_uint \<Rightarrow> go_int \<Rightarrow> go_int \<Rightarrow> go_panic + (go_int \<times> go_int)" where
  "QuadKeyToTileXY_loop 0 quadKey levelOfDetail tileX tileY = Inr (tileX, tileY)"
| "QuadKeyToTileXY_loop (Suc j) quadKey levelOfDetail tileX tileY =
     (let mask = push_bit j (1 :: go_int);
          k = unat (levelOfDetail - word_of_nat (Suc j))
      in if length quadKey \<le> k then Inl IndexOutOfRange
         else let c = quadKey ! k
           in if c = CHR ''0'' then
                QuadKeyToTileXY_loop j quadKey levelOfDetail tileX tileY
              else if c = CHR ''1'' then
                QuadKeyToTileXY_loop j quadKey levelOfDetail (tileX OR mask) tileY
              else if c = CHR ''2'' then
                QuadKeyToTileXY_loop j quadKey levelOfDetail tileX (tileY OR mask)
              else if c = CHR ''3'' then
                QuadKeyToTileXY_loop j quadKey levelOfDetail (tileX OR mask) (tileY OR mask)
              else
                QuadKeyToTileXY_loop j quadKey levelOfDetail (- 1) (- 1))"

definition QuadKeyToTileXY :: "string \<Rightarrow> go_panic + (go_int \<times> go_int \<times> go_uint)" where
  "QuadKeyToTileXY quadKey =
     (let levelOfDetail = (word_of_nat (length quadKey) :: go_uint)
      in case QuadKeyToTileXY_loop (unat levelOfDetail) quadKey levelOfDetail 0 0 of
           Inl e \<Rightarrow> Inl e
         | Inr (tileX, tileY) \<Rightarrow> Inr (tileX, tileY, levelOfDetail))"

definition LatLongToQuadKey :: "float64 \<Rightarrow> float64 \<Rightarrow> go_uint \<Rightarrow> string" where
  "LatLongToQuadKey latitude longitude levelOfDetail =
     (let (x, y) = LatLongToPixelXY latitude longitude levelOfDetail;
          (tileX, tileY) = PixelXYToTileXY x y
      in TileXYToQuadKey tileX tileY levelOfDetail)"

section \<open>Notions of the specification\<close>

text \<open>
  The quadkey as the specification words it: for \<open>i\<close> from \<open>level\<close> down to 1, with
  \<open>mask = 1 << (i - 1)\<close>, the digit is 0, plus 1 if \<open>(tileX & mask) != 0\<close>, plus 2 if
  \<open>(tileY & mask) != 0\<close>, and the decimal characters of the digits follow each other from
  the coarsest level to the finest.
\<close>

definition quadkey_digit :: "go_int \<Rightarrow> go_int \<Rightarrow> nat \<Rightarrow> nat" where
  "quadkey_digit tileX tileY i =
     (let mask = push_bit (i - 1) (1 :: go_int)
      in 0 + (if tileX AND mask \<noteq> 0 then 1 else 0) + (if tileY AND mask \<noteq> 0 then 2 else 0))"

definition quadkey_spec :: "go_int \<Rightarrow> go_int \<Rightarrow> nat \<Rightarrow> string" where
  "quadkey_spec tileX tileY level =
     map (\<lambda>i. ''0123'' ! quadkey_digit tileX tileY i) (rev [1..<Suc level])"


text \<open>The characters of a quadkey.\<close>

definition quadkey_char :: "char \<Rightarrow> bool" where
  "quadkey_char c \<longleftrightarrow> c = CHR ''0'' \<or> c = CHR ''1'' \<or> c = CHR ''2'' \<or> c = CHR ''3''"

text \<open>From a tile to its upper-left pixel and back to the tile of that pixel.\<close>

definition tile_of_tile_pixel :: "go_int \<Rightarrow> go_int \<Rightarrow> go_int \<times> go_int" where
  "tile_of_tile_pixel tileX tileY =
     (case TileXYToPixelXY tileX tileY of (pixelX, pixelY) \<Rightarrow> PixelXYToTileXY pixelX pixelY)"

section \<open>The map size\<close>

lemma unat_push_bit_256:
  assumes "n \<le> 55"
  shows "unat (push_bit n (256 :: go_uint)) = 256 * 2 ^ n"
proof -
  have "(256::nat) * 2 ^ n = 2 ^ (8 + n)" by (simp add: power_add)
  also have "\<dots> < 2 ^ 64" using assms by (intro power_strict_increasing) simp_all
  finally have lt: "(256::nat) * 2 ^ n < 2 ^ 64" .
  have "unat (push_bit n (256 :: go_uint)) = take_bit 64 (push_bit n (256::nat))"
    by (simp add: unsigned_push_bit_eq)
  also have "\<dots> = 256 * 2 ^ n"
    using lt by (simp add: push_bit_eq_mult take_bit_nat_eq_self_iff)
  finally show ?thesis .
qed

text \<open>
  C8. For every level from 0 to 23, \<open>MapSize\<close> returns exactly \<open>256 * 2 ^ level\<close>: the
  unsigned value of the result is that number, nothing is lost to the 64-bit width. In
  particular \<open>MapSize 23\<close> is \<open>2147483648 = 2 ^ 31\<close>.
\<close>

theorem MapSize_exact:
  "unat level \<le> 23 \<Longrightarrow>
     unat (MapSize level) = 256 * 2 ^ unat level \<and> MapSize 23 = 2147483648"
  using unat_push_bit_256 [of "unat level"] by (simp add: MapSize_def)

theorem MapSize_exact_witness:
  "unat (5 :: go_uint) \<le> 23 \<and> unat (MapSize 5) = 256 * 2 ^ unat (5 :: go_uint)
     \<and> MapSize 23 = 2147483648"
  using MapSize_exact [of 5] by simp

section \<open>Clipping\<close>


text \<open>
  C6. \<open>clip\<close> is idempotent: for every \<open>n\<close> and all bounds \<open>a \<le> b\<close>, clipping the clipped
  value again gives the clipped value.
\<close>

theorem clip_idempotent:
  "a \<le> b \<Longrightarrow> clip (clip n a b) a b = clip n a b"
  by (simp add: clip_def)

theorem clip_idempotent_witness:
  "(0 :: real) \<le> 10 \<and> clip (clip 15 0 10) 0 10 = clip 15 0 10"
  using clip_idempotent [of 0 10 15] by simp

section \<open>Ground resolution\<close>






section \<open>From latitude and longitude to pixels\<close>
















section \<open>From latitude and longitude to the quadkey\<close>

text \<open>
  C9. \<open>LatLongToQuadKey\<close> is the composition, and nothing else: \<open>TileXYToQuadKey\<close>, at
  the same level, applied to the result of \<open>PixelXYToTileXY\<close> applied to the result of
  \<open>LatLongToPixelXY\<close>. This holds at every level, so at the levels 1 to 23.
\<close>

theorem LatLongToQuadKey_composition:
  "LatLongToQuadKey latitude longitude levelOfDetail =
     (\<lambda>(tileX, tileY). TileXYToQuadKey tileX tileY levelOfDetail)
       ((\<lambda>(pixelX, pixelY). PixelXYToTileXY pixelX pixelY)
          (LatLongToPixelXY latitude longitude levelOfDetail))"
  by (simp add: LatLongToQuadKey_def split: prod.splits)

section \<open>Tiles and pixels\<close>

text \<open>
  C4 as stated fails where the product overflows: for \<open>tileX = 2 ^ 55\<close> the pixel
  coordinate \<open>tileX * 256\<close> wraps to \<open>- 2 ^ 63\<close>, whose quotient by 256 is \<open>- 2 ^ 55\<close>.
\<close>

theorem tile_pixel_overflow_counterexample:
  "0 \<le> sint (36028797018963968 :: go_int) \<and> 0 \<le> sint (0 :: go_int)
    \<and> tile_of_tile_pixel 36028797018963968 0 \<noteq> (36028797018963968, 0)"
  by (simp add: tile_of_tile_pixel_def TileXYToPixelXY_def PixelXYToTileXY_def int_quo_def)

lemma int_quo_mult_256:
  assumes "0 \<le> sint (t :: go_int)" "sint t < 2 ^ 55"
  shows "int_quo (t * 256) 256 = t"
proof -
  have "sint (t * 256) = signed_take_bit 63 (sint t * 256)"
    by (simp add: sint_word_mult)
  also have "\<dots> = sint t * 256"
    using assms by (simp add: signed_take_bit_int_eq_self)
  finally have "sint (t * 256) sdiv 256 = sint t"
    using assms(1) by (simp add: signed_divide_int_def sgn_if)
  then show ?thesis by (simp add: int_quo_def)
qed

text \<open>
  C4, within the range of \<open>int\<close>. For all tile coordinates from 0 up to, but not
  including, \<open>2 ^ 55\<close>, the tile of the upper-left pixel of a tile is that tile:
  \<open>PixelXYToTileXY\<close> applied to the result of \<open>TileXYToPixelXY tileX tileY\<close> is
  \<open>(tileX, tileY)\<close>.
\<close>

theorem tile_pixel_round_trip:
  assumes "0 \<le> sint tileX" "sint tileX < 2 ^ 55" "0 \<le> sint tileY" "sint tileY < 2 ^ 55"
  shows "tile_of_tile_pixel tileX tileY = (tileX, tileY)"
  using assms
  by (simp add: tile_of_tile_pixel_def TileXYToPixelXY_def PixelXYToTileXY_def int_quo_mult_256)

theorem tile_pixel_round_trip_witness:
  "0 \<le> sint (3 :: go_int) \<and> sint (3 :: go_int) < 2 ^ 55
    \<and> 0 \<le> sint (5 :: go_int) \<and> sint (5 :: go_int) < 2 ^ 55
    \<and> tile_of_tile_pixel 3 5 = (3, 5)"
  using tile_pixel_round_trip [of 3 5] by simp

section \<open>Quadkeys\<close>

lemma Itoa_digits:
  "Itoa 0 = ''0''" "Itoa 1 = ''1''" "Itoa 2 = ''2''" "Itoa 3 = ''3''"
  by (simp_all add: Itoa_def decimal.simps)

lemma quadkey_spec_Suc:
  "quadkey_spec tileX tileY (Suc n) =
      (''0123'' ! quadkey_digit tileX tileY (Suc n)) # quadkey_spec tileX tileY n"
  by (simp add: quadkey_spec_def)

lemma TileXYToQuadKey_loop_eq:
  "TileXYToQuadKey_loop n tileX tileY buffer = buffer @ quadkey_spec tileX tileY n"
proof (induction n arbitrary: buffer)
  case 0
  show ?case by (simp add: quadkey_spec_def)
next
  case (Suc n)
  show ?case
    by (simp add: Suc.IH quadkey_spec_Suc quadkey_digit_def Itoa_digits Let_def)
qed

lemma length_quadkey_spec: "length (quadkey_spec tileX tileY n) = n"
  by (simp add: quadkey_spec_def)

text \<open>
  C3. For every level from 1 to 23 and all tile coordinates, the string returned by
  \<open>TileXYToQuadKey\<close> is the one the specification describes: for \<open>i\<close> from the level
  down to 1, with \<open>mask = 1 << (i - 1)\<close>, the digit 0 plus 1 if \<open>(tileX & mask) != 0\<close>
  plus 2 if \<open>(tileY & mask) != 0\<close>, the coarsest level first. Its length is the level,
  and \<open>TileXYToQuadKey 3 5 3\<close> is "213".
\<close>

theorem TileXYToQuadKey_digits:
  "1 \<le> unat level \<and> unat level \<le> 23 \<Longrightarrow>
     TileXYToQuadKey tileX tileY level = quadkey_spec tileX tileY (unat level)
     \<and> length (TileXYToQuadKey tileX tileY level) = unat level
     \<and> TileXYToQuadKey 3 5 3 = ''213''"
proof -
  have "TileXYToQuadKey 3 5 3 = ''213''" by code_simp
  then show ?thesis
    by (simp add: TileXYToQuadKey_def TileXYToQuadKey_loop_eq length_quadkey_spec)
qed

theorem TileXYToQuadKey_digits_witness:
  "1 \<le> unat (2 :: go_uint) \<and> unat (2 :: go_uint) \<le> 23 \<and>
     TileXYToQuadKey 1 2 2 = quadkey_spec 1 2 (unat (2 :: go_uint))
     \<and> length (TileXYToQuadKey 1 2 2) = unat (2 :: go_uint)
     \<and> TileXYToQuadKey 3 5 3 = ''213''"
  using TileXYToQuadKey_digits [of 2 1 2] by (simp add: length_quadkey_spec)

lemma index_of_counter:
  assumes "Suc j \<le> unat (levelOfDetail :: go_uint)"
  shows "unat (levelOfDetail - word_of_nat (Suc j)) = unat levelOfDetail - Suc j"
proof -
  have u: "unat (word_of_nat (Suc j) :: go_uint) = Suc j"
    using assms by (rule le_unat_uoi)
  then have "(word_of_nat (Suc j) :: go_uint) \<le> levelOfDetail"
    using assms by (simp add: word_le_nat_alt)
  then show ?thesis by (simp only: unat_sub u)
qed

lemma take_bit_Suc_or:
  "take_bit (Suc j) (w :: go_int) = (if bit w j then push_bit j 1 else 0) OR take_bit j w"
  by (rule bit_eqI) (auto simp add: bit_simps less_Suc_eq)

lemma quadkey_spec_nth:
  assumes "Suc j \<le> n"
  shows "quadkey_spec tileX tileY n ! (n - Suc j) = ''0123'' ! quadkey_digit tileX tileY (Suc j)"
proof -
  have "rev [1..<Suc n] ! (n - Suc j) = Suc j"
    using assms by (simp add: rev_nth del: upt_Suc)
  then show ?thesis using assms by (simp add: quadkey_spec_def del: upt_Suc)
qed

lemma quadkey_digit_bits:
  "quadkey_digit tileX tileY (Suc j) =
     (if bit tileX j then 1 else 0) + (if bit tileY j then 2 else 0)"
  by (simp add: quadkey_digit_def bit_iff_and_push_bit_not_eq_0)

lemma decode_spec:
  assumes "unat levelOfDetail = n" "j \<le> n"
  shows "QuadKeyToTileXY_loop j (quadkey_spec tileX tileY n) levelOfDetail ax ay =
           Inr (ax OR take_bit j tileX, ay OR take_bit j tileY)"
  using assms(2)
proof (induction j arbitrary: ax ay)
  case 0
  show ?case by simp
next
  case (Suc j)
  have k: "unat (levelOfDetail - word_of_nat (Suc j)) = n - Suc j"
    using index_of_counter [of j levelOfDetail] Suc.prems assms(1) by (simp del: of_nat_Suc)
  have lt: "n - Suc j < n" using Suc.prems by simp
  have IH: "\<And>ax ay. QuadKeyToTileXY_loop j (quadkey_spec tileX tileY n) levelOfDetail ax ay =
           Inr (ax OR take_bit j tileX, ay OR take_bit j tileY)"
    using Suc.IH Suc.prems by simp
  show ?case
    using lt
    by (simp add: k length_quadkey_spec quadkey_spec_nth [OF Suc.prems] quadkey_digit_bits
        IH take_bit_Suc_or [of j tileX] take_bit_Suc_or [of j tileY] Let_def ac_simps
        del: of_nat_Suc)
qed


lemma uint_eq_sint:
  assumes "0 \<le> sint (t :: go_int)"
  shows "uint t = sint t"
proof -
  have "sint t < 2 ^ 64"
    using sint_lt [of t] by simp
  then have "take_bit 64 (sint t) = sint t"
    using assms by (simp add: take_bit_int_eq_self)
  then show ?thesis by (simp add: uint_sint)
qed

lemma take_bit_tile_coordinate:
  assumes "0 \<le> sint (t :: go_int)" "sint t \<le> 2 ^ n - 1"
  shows "take_bit n t = t"
proof -
  have "uint t < 2 ^ n" using assms by (simp add: uint_eq_sint)
  then have "uint (take_bit n t) = uint t"
    by (simp add: unsigned_take_bit_eq take_bit_int_eq_self)
  then show ?thesis by (rule word_uint_eqI)
qed

text \<open>
  C2. For every level from 1 to 23 and all tile coordinates between 0 and
  \<open>2 ^ level - 1\<close>, decoding the encoding gives back the tile and the level:
  \<open>QuadKeyToTileXY (TileXYToQuadKey tileX tileY level)\<close> returns \<open>(tileX, tileY, level)\<close>.
\<close>

theorem quadkey_round_trip:
  assumes "1 \<le> unat level" "unat level \<le> 23"
    and "0 \<le> sint tileX" "sint tileX \<le> 2 ^ unat level - 1"
    and "0 \<le> sint tileY" "sint tileY \<le> 2 ^ unat level - 1"
  shows "QuadKeyToTileXY (TileXYToQuadKey tileX tileY level) = Inr (tileX, tileY, level)"
proof -
  let ?q = "quadkey_spec tileX tileY (unat level)"
  have q: "TileXYToQuadKey tileX tileY level = ?q"
    by (simp add: TileXYToQuadKey_def TileXYToQuadKey_loop_eq)
  have lv: "(word_of_nat (length ?q) :: go_uint) = level"
    by (simp add: length_quadkey_spec)
  have "QuadKeyToTileXY_loop (unat level) ?q level 0 0 =
      Inr (0 OR take_bit (unat level) tileX, 0 OR take_bit (unat level) tileY)"
    by (rule decode_spec) simp_all
  then have "QuadKeyToTileXY_loop (unat level) ?q level 0 0 = Inr (tileX, tileY)"
    using assms by (simp add: take_bit_tile_coordinate)
  then show ?thesis
    by (simp add: q QuadKeyToTileXY_def lv Let_def)
qed

theorem quadkey_round_trip_witness:
  "1 \<le> unat (3 :: go_uint) \<and> unat (3 :: go_uint) \<le> 23
     \<and> 0 \<le> sint (3 :: go_int) \<and> sint (3 :: go_int) \<le> 2 ^ unat (3 :: go_uint) - 1
     \<and> 0 \<le> sint (5 :: go_int) \<and> sint (5 :: go_int) \<le> 2 ^ unat (3 :: go_uint) - 1
     \<and> QuadKeyToTileXY (TileXYToQuadKey 3 5 3) = Inr (3, 5, 3)"
  using quadkey_round_trip [of 3 3 5] by simp

lemma sentinel_kept:
  assumes "j \<le> unat levelOfDetail" "unat levelOfDetail \<le> length quadKey"
  shows "QuadKeyToTileXY_loop j quadKey levelOfDetail (- 1) (- 1) = Inr (- 1, - 1)"
  using assms(1)
proof (induction j)
  case 0
  show ?case by simp
next
  case (Suc j)
  have k: "unat (levelOfDetail - word_of_nat (Suc j)) = unat levelOfDetail - Suc j"
    using Suc.prems by (rule index_of_counter)
  have "unat levelOfDetail - Suc j < length quadKey"
    using Suc.prems assms(2) by simp
  moreover have "QuadKeyToTileXY_loop j quadKey levelOfDetail (- 1) (- 1) = Inr (- 1, - 1)"
    using Suc by simp
  ultimately show ?case
    by (simp add: k Let_def del: of_nat_Suc)
qed

lemma sentinel_set:
  assumes "unat levelOfDetail \<le> length quadKey"
    and "j \<le> unat levelOfDetail"
    and "unat levelOfDetail - j \<le> p" "p < unat levelOfDetail" "\<not> quadkey_char (quadKey ! p)"
  shows "QuadKeyToTileXY_loop j quadKey levelOfDetail tileX tileY = Inr (- 1, - 1)"
  using assms(2,3)
proof (induction j arbitrary: tileX tileY)
  case 0
  then show ?case using assms(4) by simp
next
  case (Suc j)
  have k: "unat (levelOfDetail - word_of_nat (Suc j)) = unat levelOfDetail - Suc j"
    using Suc.prems(1) by (rule index_of_counter)
  have lt: "unat levelOfDetail - Suc j < length quadKey"
    using Suc.prems assms(1) by simp
  have kept: "QuadKeyToTileXY_loop j quadKey levelOfDetail (- 1) (- 1) = Inr (- 1, - 1)"
    using sentinel_kept [of j levelOfDetail quadKey] Suc.prems(1) assms(1) by simp
  show ?case
  proof (cases "p = unat levelOfDetail - Suc j")
    case True
    then have "\<not> quadkey_char (quadKey ! (unat levelOfDetail - Suc j))"
      using assms(5) by simp
    then show ?thesis
      using lt by (simp add: k kept quadkey_char_def Let_def del: of_nat_Suc)
  next
    case False
    then have "unat levelOfDetail - j \<le> p" using Suc.prems by simp
    then have "\<And>tileX tileY. QuadKeyToTileXY_loop j quadKey levelOfDetail tileX tileY = Inr (- 1, - 1)"
      using Suc.IH Suc.prems(1) by simp
    then show ?thesis
      using lt by (simp add: k kept Let_def del: of_nat_Suc)
  qed
qed

lemma QuadKeyToTileXY_invalid:
  assumes "length quadKey < 2 ^ 64" "c \<in> set quadKey" "\<not> quadkey_char c"
  shows "QuadKeyToTileXY quadKey = Inr (- 1, - 1, word_of_nat (length quadKey))"
proof -
  let ?lv = "word_of_nat (length quadKey) :: go_uint"
  have u: "unat ?lv = length quadKey"
    using assms(1) by (simp add: unat_of_nat take_bit_nat_eq_self flip: take_bit_eq_mod)
  obtain p where p: "p < length quadKey" "\<not> quadkey_char (quadKey ! p)"
    using assms(2,3) by (auto simp add: in_set_conv_nth)
  have "QuadKeyToTileXY_loop (unat ?lv) quadKey ?lv 0 0 = Inr (- 1, - 1)"
    by (rule sentinel_set [where p = p]) (use p u in simp_all)
  then show ?thesis by (simp add: QuadKeyToTileXY_def Let_def)
qed

text \<open>
  C10. For every string with at least one character outside 0, 1, 2, 3,
  \<open>QuadKeyToTileXY\<close> returns \<open>tileX = - 1\<close> and \<open>tileY = - 1\<close>, with the length of the
  string as the level, wherever the character stands and whatever stands before or
  after it. The length of a Go string is a non-negative \<open>int\<close>, so below \<open>2 ^ 63\<close>.
\<close>

theorem QuadKeyToTileXY_sentinel:
  assumes "length quadKey < 2 ^ 63" "\<exists>c \<in> set quadKey. \<not> quadkey_char c"
  shows "QuadKeyToTileXY quadKey = Inr (- 1, - 1, word_of_nat (length quadKey))
     \<and> unat (word_of_nat (length quadKey) :: go_uint) = length quadKey"
proof -
  have lt: "length quadKey < 2 ^ 64"
    using assms(1) by (rule less_trans) simp
  then have "unat (word_of_nat (length quadKey) :: go_uint) = length quadKey"
    by (simp add: unat_of_nat take_bit_nat_eq_self flip: take_bit_eq_mod)
  then show ?thesis
    using assms(2) QuadKeyToTileXY_invalid [OF lt] by blast
qed

theorem QuadKeyToTileXY_sentinel_witness:
  "length ''1x30'' < 2 ^ 63 \<and> (\<exists>c \<in> set ''1x30''. \<not> quadkey_char c)
     \<and> QuadKeyToTileXY ''1x30'' = Inr (- 1, - 1, word_of_nat (length ''1x30''))
     \<and> unat (word_of_nat (length ''1x30'') :: go_uint) = length ''1x30''"
proof -
  have h: "length ''1x30'' < 2 ^ 63" "\<exists>c \<in> set ''1x30''. \<not> quadkey_char c"
    by (simp_all add: quadkey_char_def)
  show ?thesis using h QuadKeyToTileXY_sentinel [OF h] by blast
qed

text \<open>
  C1 as stated fails: on "12x3" the function signals no error. It returns normally, and
  what it returns is the pair of coordinates \<open>- 1\<close> with the level 4.
\<close>

theorem QuadKeyToTileXY_no_error_counterexample:
  "QuadKeyToTileXY ''12x3'' = Inr (- 1, - 1, 4)"
  by code_simp

lemma valid_nonnegative:
  assumes "unat levelOfDetail \<le> length quadKey"
    and "\<forall>p < unat levelOfDetail. quadkey_char (quadKey ! p)"
    and "j \<le> unat levelOfDetail" "j \<le> 63" "\<not> bit tileX 63"
  shows "\<exists>x y. QuadKeyToTileXY_loop j quadKey levelOfDetail tileX tileY = Inr (x, y) \<and> \<not> bit x 63"
  using assms(3,4,5)
proof (induction j arbitrary: tileX tileY)
  case 0
  then show ?case by simp
next
  case (Suc j)
  have k: "unat (levelOfDetail - word_of_nat (Suc j)) = unat levelOfDetail - Suc j"
    using Suc.prems(1) by (rule index_of_counter)
  have lt: "unat levelOfDetail - Suc j < length quadKey"
    using Suc.prems assms(1) by simp
  have c: "quadkey_char (quadKey ! (unat levelOfDetail - Suc j))"
    using assms(2) Suc.prems(1) by simp
  have m: "\<not> bit (tileX OR push_bit j 1) 63"
    using Suc.prems(2,3) by (simp add: bit_simps)
  have IH: "\<And>x y. \<not> bit x 63 \<Longrightarrow>
      \<exists>x' y'. QuadKeyToTileXY_loop j quadKey levelOfDetail x y = Inr (x', y') \<and> \<not> bit x' 63"
    using Suc.IH Suc.prems(1,2) by simp
  show ?case
    using lt c IH [OF m] IH [OF Suc.prems(3)]
    by (auto simp add: k quadkey_char_def Let_def simp del: of_nat_Suc)
qed

lemma short_quadkey_sentinel_iff:
  assumes "length quadKey \<le> 63"
  shows "\<exists>tileX tileY. QuadKeyToTileXY quadKey = Inr (tileX, tileY, word_of_nat (length quadKey))
     \<and> (tileX = - 1 \<and> tileY = - 1 \<longleftrightarrow> (\<exists>c \<in> set quadKey. \<not> quadkey_char c))"
proof (cases "\<exists>c \<in> set quadKey. \<not> quadkey_char c")
  case True
  have "length quadKey < 2 ^ 64"
    using assms by (rule le_less_trans) simp
  then show ?thesis
    using True QuadKeyToTileXY_invalid [of quadKey] by auto
next
  case False
  let ?lv = "word_of_nat (length quadKey) :: go_uint"
  have "length quadKey < 2 ^ 64"
    using assms by (rule le_less_trans) simp
  then have u: "unat ?lv = length quadKey"
    by (simp add: unat_of_nat take_bit_nat_eq_self flip: take_bit_eq_mod)
  have "\<forall>p < unat ?lv. quadkey_char (quadKey ! p)"
    using False u by simp
  then obtain x y where xy: "QuadKeyToTileXY_loop (unat ?lv) quadKey ?lv 0 0 = Inr (x, y)"
      "\<not> bit x 63"
    using valid_nonnegative [of ?lv quadKey "unat ?lv" 0 0] u assms by auto
  have "x \<noteq> - 1" using xy(2) by auto
  then show ?thesis
    using False xy(1) by (simp add: QuadKeyToTileXY_def Let_def)
qed

text \<open>
  C1, as the code has it. \<open>QuadKeyToTileXY\<close> has no error result and reports neither the
  offending character nor its position: a string with a character outside 0, 1, 2, 3 is
  marked by the result \<open>tileX = - 1\<close>, \<open>tileY = - 1\<close> alone. For every string with such a
  character the function returns normally, with both coordinates \<open>- 1\<close> and the length as
  the level. For every string of at most 63 characters the function returns, with the
  length as the level, and the two coordinates are both \<open>- 1\<close> exactly when the string
  has such a character.
\<close>

theorem QuadKeyToTileXY_marks_invalid:
  assumes "length quadKey < 2 ^ 63"
  shows "((\<exists>c \<in> set quadKey. \<not> quadkey_char c) \<longrightarrow>
        QuadKeyToTileXY quadKey = Inr (- 1, - 1, word_of_nat (length quadKey)))
     \<and> (length quadKey \<le> 63 \<longrightarrow>
        (\<exists>tileX tileY.
          QuadKeyToTileXY quadKey = Inr (tileX, tileY, word_of_nat (length quadKey))
          \<and> (tileX = - 1 \<and> tileY = - 1 \<longleftrightarrow> (\<exists>c \<in> set quadKey. \<not> quadkey_char c))))"
proof -
  have "length quadKey < 2 ^ 64"
    using assms by (rule less_trans) simp
  then have "(\<exists>c \<in> set quadKey. \<not> quadkey_char c) \<longrightarrow>
        QuadKeyToTileXY quadKey = Inr (- 1, - 1, word_of_nat (length quadKey))"
    using QuadKeyToTileXY_invalid [of quadKey] by blast
  then show ?thesis
    using short_quadkey_sentinel_iff [of quadKey] by blast
qed

theorem QuadKeyToTileXY_marks_invalid_witness:
  "length ''12x3'' < 2 ^ 63 \<and> (\<exists>c \<in> set ''12x3''. \<not> quadkey_char c)
     \<and> length ''12x3'' \<le> 63
     \<and> QuadKeyToTileXY ''12x3'' = Inr (- 1, - 1, word_of_nat (length ''12x3''))
     \<and> (\<exists>tileX tileY.
          QuadKeyToTileXY ''12x3'' = Inr (tileX, tileY, word_of_nat (length ''12x3''))
          \<and> (tileX = - 1 \<and> tileY = - 1 \<longleftrightarrow> (\<exists>c \<in> set ''12x3''. \<not> quadkey_char c)))"
proof -
  have h: "length ''12x3'' < 2 ^ 63" by simp
  have i: "\<exists>c \<in> set ''12x3''. \<not> quadkey_char c" by (simp add: quadkey_char_def)
  have l: "length ''12x3'' \<le> 63" by simp
  show ?thesis
    using h i l QuadKeyToTileXY_marks_invalid [OF h] by blast
qed

end
